theory Spec2Isabelle
  imports Main
begin

section \<open>Data model of the streaming endpoint\<close>

text \<open>
  The theory embeds \<^verbatim>\<open>internal/api/client/streaming/stream.go\<close>: the request handler
  \<^verbatim>\<open>StreamGETHandler\<close>, the connection coordinator \<^verbatim>\<open>handleWSConn\<close> and the
  inbound pump \<^verbatim>\<open>readFromWSConn\<close>.

  The names of the query parameters and of the token header are package constants
  declared in another file; they are kept symbolic, one constructor per constant.
  \<^verbatim>\<open>c.Query\<close> and \<^verbatim>\<open>c.GetHeader\<close> return the empty string for a parameter that is
  absent, so a request is a pair of total functions into strings.
\<close>

datatype query_key = AccessTokenQueryKey | StreamQueryKey | StreamListKey | StreamTagKey

datatype header_key = AccessTokenHeader

record gin_Context =
  Query :: "query_key \<Rightarrow> string"
  GetHeader :: "header_key \<Rightarrow> string"

record Account =
  Username :: string

text \<open>
  \<^verbatim>\<open>streampkg.Stream\<close>: the id and the topic set. The two channels of the Go struct
  (\<^verbatim>\<open>Messages\<close>, \<^verbatim>\<open>Hangup\<close>) appear as effects below; the mutex has no sequential
  content.
\<close>

record Stream =
  ID :: string
  StreamTypes :: "string \<rightharpoonup> bool"

datatype WSConn = WSConn nat

datatype WithCode = WithCode (Code: nat) (Safe: string)

text \<open>
  Modelled from the spec: \<^verbatim>\<open>gtserror.NewErrorUnauthorized\<close> is declared outside the
  source file; the spec maps an authentication failure to the response
  ``unauthorized'', which the handler's own documentation numbers 401.
\<close>

definition NewErrorUnauthorized :: "string \<Rightarrow> WithCode" where
  "NewErrorUnauthorized err = WithCode 401 err"

datatype level = TRACE | DEBUG | INFO | WARN | ERROR

text \<open>
  Everything the code does besides computing values is recorded, in order, as a list
  of effects: the calls to the collaborators, the log entries, closing the hangup
  channel, calling the cancel function of the connection's context, and starting the
  coordinator goroutine.
\<close>

datatype effect =
    CallAuthorize string
  | CallAuthed
  | CallErrorHandler WithCode
  | CallOpen Account string
  | CallUpgrade
  | Log level string
  | CloseHangup string
  | GoHandleWSConn string WSConn Stream
  | Cancel

text \<open>
  The collaborators of the handler, whose code is outside the source file, are
  parameters: \<^verbatim>\<open>m.processor.Stream().Authorize\<close>, \<^verbatim>\<open>oauth.Authed\<close>,
  \<^verbatim>\<open>m.processor.Stream().Open\<close> and \<^verbatim>\<open>m.wsUpgrade.Upgrade\<close>. Each returns an error
  (\<open>Inl\<close>) or a value (\<open>Inr\<close>).
\<close>

record Module =
  Authorize :: "string \<Rightarrow> WithCode + Account"
  Authed :: "gin_Context \<Rightarrow> string + Account"
  Open :: "Account \<Rightarrow> string \<Rightarrow> WithCode + Stream"
  Upgrade :: "gin_Context \<Rightarrow> string + WSConn"

section \<open>The request handler\<close>

text \<open>Lines 157--162: the query parameter first, the header as fallback.\<close>

definition accessToken :: "gin_Context \<Rightarrow> string" where
  "accessToken c =
     (let token = Query c AccessTokenQueryKey
      in if token = [] then GetHeader c AccessTokenHeader else token)"

text \<open>
  Lines 164--186: authorization. The result is the effects performed and the account,
  or \<open>None\<close> when the handler has answered with an error and returns.
\<close>

definition authorize :: "Module \<Rightarrow> gin_Context \<Rightarrow> effect list \<times> Account option" where
  "authorize m c =
     (let token = accessToken c
      in if token \<noteq> [] then
           (case Authorize m token of
              Inl errWithCode \<Rightarrow> ([CallAuthorize token, CallErrorHandler errWithCode], None)
            | Inr account \<Rightarrow> ([CallAuthorize token], Some account))
         else
           (case Authed m c of
              Inl err \<Rightarrow> ([CallAuthed, CallErrorHandler (NewErrorUnauthorized err)], None)
            | Inr account \<Rightarrow> ([CallAuthed], Some account)))"

text \<open>Lines 188--199: the initial topic key.\<close>

definition initialStreamType :: "gin_Context \<Rightarrow> string" where
  "initialStreamType c =
     (let streamType = Query c StreamQueryKey;
          list = Query c StreamListKey
      in if list \<noteq> [] then streamType @ '':'' @ list
         else (let tag = Query c StreamTagKey
               in if tag \<noteq> [] then streamType @ '':'' @ tag else streamType))"

text \<open>Lines 201--241: open the stream, upgrade, start the coordinator.\<close>

definition openAndUpgrade :: "Module \<Rightarrow> gin_Context \<Rightarrow> Account \<Rightarrow> effect list" where
  "openAndUpgrade m c account =
     (let streamType = initialStreamType c
      in case Open m account streamType of
           Inl errWithCode \<Rightarrow> [CallOpen account streamType, CallErrorHandler errWithCode]
         | Inr stream \<Rightarrow>
             (case Upgrade m c of
                Inl err \<Rightarrow>
                  [CallOpen account streamType, CallUpgrade,
                   Log ERROR ''error upgrading websocket connection: %v'',
                   CloseHangup (ID stream)]
              | Inr wsConn \<Rightarrow>
                  [CallOpen account streamType, CallUpgrade,
                   Log INFO ''opened websocket connection'',
                   GoHandleWSConn (Username account) wsConn stream]))"

definition StreamGETHandler :: "Module \<Rightarrow> gin_Context \<Rightarrow> effect list" where
  "StreamGETHandler m c =
     (case authorize m c of
        (tr, None) \<Rightarrow> tr
      | (tr, Some account) \<Rightarrow> tr @ openAndUpgrade m c account)"

section \<open>The inbound pump\<close>

text \<open>
  \<^verbatim>\<open>wsConn.ReadJSON\<close> returns an error or a decoded \<^verbatim>\<open>map[string]string\<close>. An error is
  a \<^verbatim>\<open>*websocket.CloseError\<close> carrying the close code of RFC 6455, or any other error
  (a network error, a frame that does not decode into the map).
\<close>

datatype error = CloseError int string | OtherError string

text \<open>The close codes of RFC 6455, section 11.7, as the websocket library names them.\<close>

definition CloseNormalClosure :: int where
  "CloseNormalClosure = 1000"

definition CloseGoingAway :: int where
  "CloseGoingAway = 1001"

definition CloseNoStatusReceived :: int where
  "CloseNoStatusReceived = 1005"

text \<open>
  \<^verbatim>\<open>websocket.IsUnexpectedCloseError\<close> of the websocket library, after its
  documentation: it ``returns boolean indicating whether the error is a *CloseError
  with a code not in the list of expected codes''.
\<close>

fun IsUnexpectedCloseError :: "error \<Rightarrow> int list \<Rightarrow> bool" where
  "IsUnexpectedCloseError (CloseError code text) expectedCodes = (code \<notin> set expectedCodes)"
| "IsUnexpectedCloseError (OtherError text) expectedCodes = False"

text \<open>
  Lines 341--380, the body of the loop after a successful read. The list of known
  timelines \<^verbatim>\<open>streampkg.AllStatusTimelines\<close> is declared outside the source file and is
  the parameter \<open>allStatusTimelines\<close>. The result is the stream, its topic set updated,
  and the log entries written (the texts without their quotation marks). Taking and
  releasing the stream's lock around the update has no effect on a single thread and
  is not recorded.
\<close>

definition handleMsg :: "string list \<Rightarrow> (string \<rightharpoonup> string) \<Rightarrow> Stream \<Rightarrow> Stream \<times> effect list" where
  "handleMsg allStatusTimelines msg stream =
     (case msg ''type'' of
        None \<Rightarrow> (stream, [Log WARN ''type field not provided''])
      | Some updateType \<Rightarrow>
          (case msg ''stream'' of
             None \<Rightarrow> (stream, [Log WARN ''stream field not provided''])
           | Some updateStream \<Rightarrow>
               if updateStream \<notin> set allStatusTimelines
               then (stream, [Log WARN ''unknown stream field: %v''])
               else
                 (let updateStream =
                        (case msg ''list'' of
                           Some updateList \<Rightarrow> updateStream @ '':'' @ updateList
                         | None \<Rightarrow> updateStream)
                  in if updateType = ''subscribe''
                     then (stream\<lparr>StreamTypes := (StreamTypes stream)(updateStream \<mapsto> True)\<rparr>, [])
                     else if updateType = ''unsubscribe''
                     then (stream\<lparr>StreamTypes := (StreamTypes stream)(updateStream := None)\<rparr>, [])
                     else (stream, [Log WARN ''invalid type field: %v'']))))"

text \<open>
  What one iteration of the loop finds: the context already cancelled, or the outcome
  of the blocking read. The list of these is the pump's input; when it is used up the
  pump is blocked in the read and has not returned.
\<close>

datatype observation = CtxDone | ReadJSON "error + (string \<rightharpoonup> string)"

record pump =
  returned :: bool
  stream :: Stream
  effects :: "effect list"

text \<open>Lines 313--382, the loop.\<close>

fun readLoop :: "string list \<Rightarrow> observation list \<Rightarrow> Stream \<Rightarrow> effect list \<Rightarrow> pump" where
  "readLoop tls [] st tr = \<lparr>returned = False, stream = st, effects = tr\<rparr>"
| "readLoop tls (CtxDone # obs) st tr = \<lparr>returned = True, stream = st, effects = tr\<rparr>"
| "readLoop tls (ReadJSON (Inl err) # obs) st tr =
     \<lparr>returned = True, stream = st,
      effects = tr @
        (if IsUnexpectedCloseError err [CloseNormalClosure, CloseGoingAway, CloseNoStatusReceived]
         then [Log ERROR ''error reading from websocket: %v''] else [])\<rparr>"
| "readLoop tls (ReadJSON (Inr msg) # obs) st tr =
     (case handleMsg tls msg st of
        (st', logs) \<Rightarrow>
          readLoop tls obs st' (tr @ Log INFO ''received message from websocket: %v'' # logs))"

text \<open>Lines 300--385.\<close>

definition readFromWSConn :: "string list \<Rightarrow> observation list \<Rightarrow> Stream \<Rightarrow> pump" where
  "readFromWSConn tls obs st =
     (let p = readLoop tls obs st []
      in if returned p
         then p\<lparr>effects := effects p @ [Log DEBUG ''finished reading from websocket connection'']\<rparr>
         else p)"

text \<open>
  Lines 264--267, the goroutine of the inbound pump: the deferred \<^verbatim>\<open>cancel\<close> runs when
  \<^verbatim>\<open>readFromWSConn\<close> returns.
\<close>

definition readGoroutine :: "string list \<Rightarrow> observation list \<Rightarrow> Stream \<Rightarrow> pump" where
  "readGoroutine tls obs st =
     (let p = readFromWSConn tls obs st
      in if returned p then p\<lparr>effects := effects p @ [Cancel]\<rparr> else p)"

section \<open>The coordinator and its two goroutines\<close>

text \<open>
  \<^verbatim>\<open>handleWSConn\<close> runs concurrently with the two goroutines it starts. The model is
  the interleaving of the three: a state holding where each of them is, and one step
  of a chosen actor. A goroutine of a pump is running its loop, has left the loop with
  the deferred \<^verbatim>\<open>cancel\<close> still to run, or has finished. Why a pump leaves its loop (the
  context cancelled, a failed read or write) is decided outside the coordinator, so a
  running pump may leave at any step. A step that is not enabled (the coordinator
  waiting on a context that is not cancelled, a goroutine that has not started or has
  finished) leaves the state as it is.
\<close>

datatype goroutine = NotStarted | Running | Returned | Finished

datatype coordinator =
    StartRead     \<comment> \<open>line 264\<close>
  | StartWrite    \<comment> \<open>line 270\<close>
  | AwaitDone     \<comment> \<open>line 277\<close>
  | CloseConn     \<comment> \<open>line 280\<close>
  | CloseHang     \<comment> \<open>line 286\<close>
  | StopPinger    \<comment> \<open>line 289\<close>
  | Done          \<comment> \<open>line 291 and the return\<close>

record conn =
  pc :: coordinator
  reader :: goroutine
  writer :: goroutine
  ctxDone :: bool
  connClosed :: bool
  hangupCloses :: nat
  pingerStopped :: bool

definition handleWSConn_init :: conn where
  "handleWSConn_init =
     \<lparr>pc = StartRead, reader = NotStarted, writer = NotStarted, ctxDone = False,
      connClosed = False, hangupCloses = 0, pingerStopped = False\<rparr>"

datatype actor = Coordinator | ReadPump | WritePump

fun goroutine_step :: "goroutine \<Rightarrow> goroutine" where
  "goroutine_step Running = Returned"
| "goroutine_step Returned = Finished"
| "goroutine_step g = g"

fun step :: "actor \<Rightarrow> conn \<Rightarrow> conn" where
  "step Coordinator s =
     (case pc s of
        StartRead \<Rightarrow> s\<lparr>pc := StartWrite, reader := Running\<rparr>
      | StartWrite \<Rightarrow> s\<lparr>pc := AwaitDone, writer := Running\<rparr>
      | AwaitDone \<Rightarrow> if ctxDone s then s\<lparr>pc := CloseConn\<rparr> else s
      | CloseConn \<Rightarrow> s\<lparr>pc := CloseHang, connClosed := True\<rparr>
      | CloseHang \<Rightarrow> s\<lparr>pc := StopPinger, hangupCloses := Suc (hangupCloses s)\<rparr>
      | StopPinger \<Rightarrow> s\<lparr>pc := Done, pingerStopped := True\<rparr>
      | Done \<Rightarrow> s)"
| "step ReadPump s =
     s\<lparr>reader := goroutine_step (reader s), ctxDone := (ctxDone s \<or> reader s = Returned)\<rparr>"
| "step WritePump s =
     s\<lparr>writer := goroutine_step (writer s), ctxDone := (ctxDone s \<or> writer s = Returned)\<rparr>"

text \<open>A run of the connection under a schedule, from the entry of \<^verbatim>\<open>handleWSConn\<close>.\<close>

definition handleWSConn :: "actor list \<Rightarrow> conn" where
  "handleWSConn schedule = fold step schedule handleWSConn_init"

text \<open>
  The relation between the coordinator's position and the rest of the state that
  every step keeps.
\<close>

definition coherent :: "conn \<Rightarrow> bool" where
  "coherent s \<longleftrightarrow>
     hangupCloses s = (if pc s = StopPinger \<or> pc s = Done then 1 else 0)
     \<and> (pc s = CloseConn \<or> pc s = CloseHang \<or> pc s = StopPinger \<or> pc s = Done \<longrightarrow> ctxDone s)
     \<and> (ctxDone s \<longrightarrow> reader s = Finished \<or> writer s = Finished)
     \<and> (pc s = CloseHang \<or> pc s = StopPinger \<or> pc s = Done \<longrightarrow> connClosed s)
     \<and> (pc s = StartRead \<longrightarrow> reader s = NotStarted \<and> writer s = NotStarted)
     \<and> (pc s = StartWrite \<longrightarrow> writer s = NotStarted)"

section \<open>Concrete requests and collaborators\<close>

text \<open>
  For evaluating the handler at a concrete input: the request with the given values
  of its five parameters, and a module whose collaborators give the same answers
  whatever they are asked.
\<close>

definition request :: "string \<Rightarrow> string \<Rightarrow> string \<Rightarrow> string \<Rightarrow> string \<Rightarrow> gin_Context" where
  "request access_token header_token stream_type list tag =
     \<lparr>Query = (\<lambda>k. case k of AccessTokenQueryKey \<Rightarrow> access_token | StreamQueryKey \<Rightarrow> stream_type
                       | StreamListKey \<Rightarrow> list | StreamTagKey \<Rightarrow> tag),
      GetHeader = (\<lambda>k. case k of AccessTokenHeader \<Rightarrow> header_token)\<rparr>"

definition answering ::
  "WithCode + Account \<Rightarrow> string + Account \<Rightarrow> WithCode + Stream \<Rightarrow> string + WSConn \<Rightarrow> Module" where
  "answering authorized authed opened upgraded =
     \<lparr>Authorize = (\<lambda>token. authorized), Authed = (\<lambda>c. authed),
      Open = (\<lambda>account streamType. opened), Upgrade = (\<lambda>c. upgraded)\<rparr>"

section \<open>Evaluation of the concrete inputs\<close>

lemma request_simps:
  "Query (request a h s l t) AccessTokenQueryKey = a"
  "Query (request a h s l t) StreamQueryKey = s"
  "Query (request a h s l t) StreamListKey = l"
  "Query (request a h s l t) StreamTagKey = t"
  "GetHeader (request a h s l t) AccessTokenHeader = h"
  by (simp_all add: request_def)

lemma answering_simps:
  "Authorize (answering a b c d) token = a"
  "Authed (answering a b c d) ctx = b"
  "Open (answering a b c d) acct key = c"
  "Upgrade (answering a b c d) ctx = d"
  by (simp_all add: answering_def)

section \<open>The initial topic key\<close>

lemma CallOpen_in_handler:
  "CallOpen a k \<in> set (StreamGETHandler m c) \<Longrightarrow> k = initialStreamType c"
  by (auto simp: StreamGETHandler_def authorize_def openAndUpgrade_def Let_def
           split: sum.splits if_splits prod.splits option.splits)

text \<open>
  Claim C5. For a request with a non-empty \<^verbatim>\<open>stream\<close> parameter, the initial topic key
  is \<^verbatim>\<open>stream\<close> alone when \<^verbatim>\<open>list\<close> and \<^verbatim>\<open>tag\<close> are both empty, \<^verbatim>\<open>stream:list\<close> when
  \<^verbatim>\<open>list\<close> is non-empty (whatever \<^verbatim>\<open>tag\<close> is), and \<^verbatim>\<open>stream:tag\<close> when \<^verbatim>\<open>list\<close> is empty
  and \<^verbatim>\<open>tag\<close> is not; and this key is the one the handler opens the stream with.
\<close>

theorem initial_topic_key:
  assumes "Query c StreamQueryKey \<noteq> []"
  shows "(Query c StreamListKey = [] \<and> Query c StreamTagKey = [] \<longrightarrow>
            initialStreamType c = Query c StreamQueryKey)
       \<and> (Query c StreamListKey \<noteq> [] \<longrightarrow>
            initialStreamType c = Query c StreamQueryKey @ '':'' @ Query c StreamListKey)
       \<and> (Query c StreamListKey = [] \<and> Query c StreamTagKey \<noteq> [] \<longrightarrow>
            initialStreamType c = Query c StreamQueryKey @ '':'' @ Query c StreamTagKey)
       \<and> (\<forall>a k. CallOpen a k \<in> set (StreamGETHandler m c) \<longrightarrow> k = initialStreamType c)"
  using CallOpen_in_handler by (auto simp: initialStreamType_def Let_def)

theorem initial_topic_key_witness:
  "Query (request ''tok'' [] ''hashtag'' [] ''foo'') StreamQueryKey \<noteq> []
   \<and> initialStreamType (request ''tok'' [] ''hashtag'' [] ''foo'') = ''hashtag:foo''
   \<and> initialStreamType (request ''tok'' [] ''list'' ''01H3'' ''foo'') = ''list:01H3''
   \<and> initialStreamType (request ''tok'' [] ''public'' [] []) = ''public''"
  using initial_topic_key [of "request ''tok'' [] ''hashtag'' [] ''foo''"]
        initial_topic_key [of "request ''tok'' [] ''list'' ''01H3'' ''foo''"]
        initial_topic_key [of "request ''tok'' [] ''public'' [] []"]
  by (simp add: request_simps)

section \<open>Authorization of the request\<close>

lemma CallAuthed_in_handler:
  "CallAuthed \<in> set (StreamGETHandler m c) \<longleftrightarrow>
     Query c AccessTokenQueryKey = [] \<and> GetHeader c AccessTokenHeader = []"
  by (auto simp: StreamGETHandler_def authorize_def openAndUpgrade_def accessToken_def Let_def
           split: sum.splits if_splits prod.splits option.splits)

lemma CallAuthorize_in_handler:
  "CallAuthorize t \<in> set (StreamGETHandler m c) \<longleftrightarrow>
     t \<noteq> [] \<and> (Query c AccessTokenQueryKey = t
               \<or> Query c AccessTokenQueryKey = [] \<and> GetHeader c AccessTokenHeader = t)"
  by (auto simp: StreamGETHandler_def authorize_def openAndUpgrade_def accessToken_def Let_def
           split: sum.splits if_splits prod.splits option.splits)

text \<open>
  Claim C10. When the access-token query parameter is empty the token is read from
  the header; the session-based \<^verbatim>\<open>oauth.Authed\<close> is called exactly when the query
  parameter and the header are both empty; \<^verbatim>\<open>Authorize\<close> is called with a token \<open>t\<close>
  exactly when \<open>t\<close> is the non-empty query parameter or, the query parameter being
  empty, the non-empty header; and a token supplied by the header is authorized as the
  same token supplied by the query parameter is.
\<close>

theorem token_fallback:
  "(Query c AccessTokenQueryKey = [] \<longrightarrow> accessToken c = GetHeader c AccessTokenHeader)
   \<and> (CallAuthed \<in> set (StreamGETHandler m c) \<longleftrightarrow>
        Query c AccessTokenQueryKey = [] \<and> GetHeader c AccessTokenHeader = [])
   \<and> (\<forall>t. CallAuthorize t \<in> set (StreamGETHandler m c) \<longleftrightarrow>
        t \<noteq> [] \<and> (Query c AccessTokenQueryKey = t
                  \<or> Query c AccessTokenQueryKey = [] \<and> GetHeader c AccessTokenHeader = t))
   \<and> (\<forall>c' t. t \<noteq> [] \<and> Query c AccessTokenQueryKey = [] \<and> GetHeader c AccessTokenHeader = t
             \<and> Query c' AccessTokenQueryKey = t \<longrightarrow> authorize m c = authorize m c')"
proof -
  have "accessToken c = GetHeader c AccessTokenHeader" if "Query c AccessTokenQueryKey = []"
    using that by (simp add: accessToken_def)
  moreover have "authorize m c = authorize m c'"
    if "t \<noteq> []" "Query c AccessTokenQueryKey = []" "GetHeader c AccessTokenHeader = t"
       "Query c' AccessTokenQueryKey = t" for c' t
    using that by (simp add: authorize_def accessToken_def)
  ultimately show ?thesis
    using CallAuthed_in_handler [of m c] CallAuthorize_in_handler [of _ m c] by blast
qed

theorem token_fallback_witness:
  "Query (request [] ''tok'' ''user'' [] []) AccessTokenQueryKey = []
   \<and> accessToken (request [] ''tok'' ''user'' [] []) = ''tok''
   \<and> CallAuthed \<notin> set (StreamGETHandler
         (answering (Inr \<lparr>Username = ''alice''\<rparr>) (Inl ''no session'')
            (Inr \<lparr>ID = ''01'', StreamTypes = [''user'' \<mapsto> True]\<rparr>) (Inr (WSConn 0)))
         (request [] ''tok'' ''user'' [] []))
   \<and> CallAuthorize ''tok'' \<in> set (StreamGETHandler
         (answering (Inr \<lparr>Username = ''alice''\<rparr>) (Inl ''no session'')
            (Inr \<lparr>ID = ''01'', StreamTypes = [''user'' \<mapsto> True]\<rparr>) (Inr (WSConn 0)))
         (request [] ''tok'' ''user'' [] []))
   \<and> CallAuthed \<in> set (StreamGETHandler
         (answering (Inr \<lparr>Username = ''alice''\<rparr>) (Inl ''no session'')
            (Inr \<lparr>ID = ''01'', StreamTypes = [''user'' \<mapsto> True]\<rparr>) (Inr (WSConn 0)))
         (request [] [] ''user'' [] []))
   \<and> authorize
         (answering (Inr \<lparr>Username = ''alice''\<rparr>) (Inl ''no session'')
            (Inr \<lparr>ID = ''01'', StreamTypes = [''user'' \<mapsto> True]\<rparr>) (Inr (WSConn 0)))
         (request [] ''tok'' ''user'' [] [])
       = authorize
         (answering (Inr \<lparr>Username = ''alice''\<rparr>) (Inl ''no session'')
            (Inr \<lparr>ID = ''01'', StreamTypes = [''user'' \<mapsto> True]\<rparr>) (Inr (WSConn 0)))
         (request ''tok'' [] ''user'' [] [])"
  using token_fallback [of "request [] ''tok'' ''user'' [] []"
          "answering (Inr \<lparr>Username = ''alice''\<rparr>) (Inl ''no session'')
            (Inr \<lparr>ID = ''01'', StreamTypes = [''user'' \<mapsto> True]\<rparr>) (Inr (WSConn 0))"]
        token_fallback [of "request [] [] ''user'' [] []"
          "answering (Inr \<lparr>Username = ''alice''\<rparr>) (Inl ''no session'')
            (Inr \<lparr>ID = ''01'', StreamTypes = [''user'' \<mapsto> True]\<rparr>) (Inr (WSConn 0))"]
  by (auto simp: request_simps)

section \<open>A request without a stream type\<close>







section \<open>The inbound pump: subscriptions\<close>

text \<open>The effects accumulated before the loop do not influence it.\<close>

lemma readLoop_append:
  "readLoop tls obs st (tr @ tr') =
     (readLoop tls obs st tr')\<lparr>effects := tr @ effects (readLoop tls obs st tr')\<rparr>"
proof (induction obs arbitrary: st tr')
  case Nil
  show ?case by simp
next
  case (Cons ob obs)
  show ?case
  proof (cases ob)
    case CtxDone
    then show ?thesis by simp
  next
    case (ReadJSON r)
    show ?thesis
    proof (cases r)
      case (Inl err)
      with ReadJSON show ?thesis by simp
    next
      case (Inr msg)
      obtain st' logs where h: "handleMsg tls msg st = (st', logs)"
        by (cases "handleMsg tls msg st")
      from Cons.IH [of st' "tr' @ Log INFO ''received message from websocket: %v'' # logs"]
      show ?thesis by (simp add: ReadJSON Inr h)
    qed
  qed
qed

lemma readLoop_stream:
  "stream (readLoop tls obs st tr) = stream (readLoop tls obs st [])"
  using readLoop_append [of tls obs st tr "[]"] by simp

lemma readLoop_returned:
  "returned (readLoop tls obs st tr) = returned (readLoop tls obs st [])"
  using readLoop_append [of tls obs st tr "[]"] by simp

lemma readFromWSConn_stream: "stream (readFromWSConn tls obs st) = stream (readLoop tls obs st [])"
  by (simp add: readFromWSConn_def Let_def)

lemma readFromWSConn_Cons_msg:
  "stream (readFromWSConn tls (ReadJSON (Inr msg) # obs) st) =
   stream (readFromWSConn tls obs (fst (handleMsg tls msg st)))"
  by (simp add: readFromWSConn_stream readLoop_stream [of _ _ _ "_ # _"] split: prod.splits)

text \<open>
  Claim C8. For a frame whose \<^verbatim>\<open>type\<close> is given, whose \<^verbatim>\<open>stream\<close> is a known timeline
  and whose \<^verbatim>\<open>list\<close> field is present, the key that the pump inserts (subscribe) or
  removes (unsubscribe) is the \<^verbatim>\<open>stream\<close> value followed by a colon and the \<^verbatim>\<open>list\<close>
  value, also when that value is the empty string.
\<close>

theorem list_qualifier_appended:
  assumes "msg ''type'' = Some t" and "msg ''stream'' = Some s" and "s \<in> set tls"
    and "msg ''list'' = Some l"
  shows "(t = ''subscribe'' \<longrightarrow>
            stream (readFromWSConn tls (ReadJSON (Inr msg) # obs) st) =
            stream (readFromWSConn tls obs (st\<lparr>StreamTypes := (StreamTypes st)(s @ '':'' @ l \<mapsto> True)\<rparr>)))
       \<and> (t = ''unsubscribe'' \<longrightarrow>
            stream (readFromWSConn tls (ReadJSON (Inr msg) # obs) st) =
            stream (readFromWSConn tls obs (st\<lparr>StreamTypes := (StreamTypes st)(s @ '':'' @ l := None)\<rparr>)))"
  using assms by (simp add: readFromWSConn_Cons_msg handleMsg_def)


theorem list_qualifier_appended_witness:
  "[''type'' \<mapsto> ''subscribe'', ''stream'' \<mapsto> ''list'', ''list'' \<mapsto> []] ''list'' = Some []
   \<and> stream (readFromWSConn [''user'', ''list'']
        [ReadJSON (Inr [''type'' \<mapsto> ''subscribe'', ''stream'' \<mapsto> ''list'', ''list'' \<mapsto> []])]
        \<lparr>ID = ''01'', StreamTypes = Map.empty\<rparr>)
     = \<lparr>ID = ''01'', StreamTypes = [''list:'' \<mapsto> True]\<rparr>
   \<and> stream (readFromWSConn [''user'', ''list'']
        [ReadJSON (Inr [''type'' \<mapsto> ''unsubscribe'', ''stream'' \<mapsto> ''list'', ''list'' \<mapsto> ''01H3''])]
        \<lparr>ID = ''01'', StreamTypes = [''list:01H3'' \<mapsto> True]\<rparr>)
     = \<lparr>ID = ''01'', StreamTypes = Map.empty\<rparr>"
  using list_qualifier_appended [of "[''type'' \<mapsto> ''subscribe'', ''stream'' \<mapsto> ''list'', ''list'' \<mapsto> []]"
          "''subscribe''" "''list''" "[''user'', ''list'']" "[]" "[]" "\<lparr>ID = ''01'', StreamTypes = Map.empty\<rparr>"]
        list_qualifier_appended [of "[''type'' \<mapsto> ''unsubscribe'', ''stream'' \<mapsto> ''list'', ''list'' \<mapsto> ''01H3'']"
          "''unsubscribe''" "''list''" "[''user'', ''list'']" "''01H3''" "[]" "\<lparr>ID = ''01'', StreamTypes = [''list:01H3'' \<mapsto> True]\<rparr>"]
  by (simp add: readFromWSConn_def)

text \<open>
  Claim C9. Two consecutive subscribe frames that name the same topic key leave the
  topic set as the first of them alone does: the key is a member, the keys are those
  of before and the key, and the key has one entry.
\<close>

theorem subscribe_idempotent:
  assumes "msg ''type'' = Some ''subscribe''" and "msg ''stream'' = Some s" and "s \<in> set tls"
    and "msg' ''type'' = Some ''subscribe''" and "msg' ''stream'' = Some s'" and "s' \<in> set tls"
    and "(case msg ''list'' of Some l \<Rightarrow> s @ '':'' @ l | None \<Rightarrow> s) = k"
    and "(case msg' ''list'' of Some l \<Rightarrow> s' @ '':'' @ l | None \<Rightarrow> s') = k"
  shows "stream (readFromWSConn tls [ReadJSON (Inr msg), ReadJSON (Inr msg')] st)
           = stream (readFromWSConn tls [ReadJSON (Inr msg)] st)
       \<and> StreamTypes (stream (readFromWSConn tls [ReadJSON (Inr msg), ReadJSON (Inr msg')] st)) k = Some True
       \<and> dom (StreamTypes (stream (readFromWSConn tls [ReadJSON (Inr msg), ReadJSON (Inr msg')] st)))
           = insert k (dom (StreamTypes st))
       \<and> card {k' \<in> dom (StreamTypes (stream (readFromWSConn tls [ReadJSON (Inr msg), ReadJSON (Inr msg')] st))). k' = k} = 1"
proof -
  have 1: "fst (handleMsg tls msg st) = st\<lparr>StreamTypes := (StreamTypes st)(k \<mapsto> True)\<rparr>" for st
    using assms(1,2,3,7) by (simp add: handleMsg_def)
  have 2: "fst (handleMsg tls msg' st) = st\<lparr>StreamTypes := (StreamTypes st)(k \<mapsto> True)\<rparr>" for st
    using assms(4,5,6,8) by (simp add: handleMsg_def)
  have 3: "stream (readFromWSConn tls [] st) = st" for st
    by (simp add: readFromWSConn_def)
  have 4: "{k'. k' = k \<and> (k' = k \<or> k' \<in> dom (StreamTypes st))} = {k}" by auto
  show ?thesis
    by (simp add: readFromWSConn_Cons_msg 1 2 3 4)
qed

theorem subscribe_idempotent_witness:
  "[''type'' \<mapsto> ''subscribe'', ''stream'' \<mapsto> ''public'', ''list'' \<mapsto> ''local''] ''type'' = Some ''subscribe''
   \<and> StreamTypes (stream (readFromWSConn [''user'', ''public'', ''public:local'']
       [ReadJSON (Inr [''type'' \<mapsto> ''subscribe'', ''stream'' \<mapsto> ''public'', ''list'' \<mapsto> ''local'']),
        ReadJSON (Inr [''type'' \<mapsto> ''subscribe'', ''stream'' \<mapsto> ''public:local''])]
       \<lparr>ID = ''01'', StreamTypes = [''user'' \<mapsto> True]\<rparr>)) ''public:local'' = Some True
   \<and> dom (StreamTypes (stream (readFromWSConn [''user'', ''public'', ''public:local'']
       [ReadJSON (Inr [''type'' \<mapsto> ''subscribe'', ''stream'' \<mapsto> ''public'', ''list'' \<mapsto> ''local'']),
        ReadJSON (Inr [''type'' \<mapsto> ''subscribe'', ''stream'' \<mapsto> ''public:local''])]
       \<lparr>ID = ''01'', StreamTypes = [''user'' \<mapsto> True]\<rparr>)))
     = {''public:local'', ''user''}"
  using subscribe_idempotent [of
      "[''type'' \<mapsto> ''subscribe'', ''stream'' \<mapsto> ''public'', ''list'' \<mapsto> ''local'']"
      "''public''" "[''user'', ''public'', ''public:local'']"
      "[''type'' \<mapsto> ''subscribe'', ''stream'' \<mapsto> ''public:local'']"
      "''public:local''" "''public:local''" "\<lparr>ID = ''01'', StreamTypes = [''user'' \<mapsto> True]\<rparr>",
      THEN conjunct2]
  by simp

section \<open>The inbound pump: frames that are not acted on\<close>

lemma handleMsg_logs:
  "e \<in> set (snd (handleMsg tls msg st)) \<Longrightarrow> \<exists>w. e = Log WARN w"
  by (auto simp: handleMsg_def Let_def split: option.splits if_splits)


lemma readLoop_returned_iff:
  "returned (readLoop tls obs st tr) \<longleftrightarrow>
     CtxDone \<in> set obs \<or> (\<exists>err. ReadJSON (Inl err) \<in> set obs)"
proof (induction obs arbitrary: st tr)
  case Nil
  show ?case by simp
next
  case (Cons ob obs)
  show ?case
  proof (cases ob)
    case CtxDone
    then show ?thesis by simp
  next
    case (ReadJSON r)
    then show ?thesis
      by (cases r) (auto simp: Cons.IH split: prod.splits)
  qed
qed


lemma readGoroutine_returned:
  "returned (readGoroutine tls obs st) = returned (readLoop tls obs st [])"
  by (simp add: readGoroutine_def readFromWSConn_def Let_def)





section \<open>The inbound pump: the keys it inserts\<close>






section \<open>The inbound pump: read failures\<close>

text \<open>
  Claim C4, as stated, fails: a read failure that is not a close error (here a network
  error) is not an expected close, and the pump logs nothing at error level for it:
  it writes its closing debug entry and cancels.
\<close>

theorem silent_read_failure:
  "effects (readGoroutine
       [''user'', ''public'', ''public:local'', ''hashtag'', ''hashtag:local'', ''list'', ''direct'']
       [ReadJSON (Inl (OtherError ''read: connection reset by peer''))]
       \<lparr>ID = ''01'', StreamTypes = [''user'' \<mapsto> True]\<rparr>)
     = [Log DEBUG ''finished reading from websocket connection'', Cancel]"
  by (simp add: readGoroutine_def readFromWSConn_def)

lemma readLoop_ERROR:
  assumes "\<forall>txt. Log ERROR txt \<notin> set tr"
  shows "(\<exists>txt. Log ERROR txt \<in> set (effects
            (readLoop tls (map (\<lambda>msg. ReadJSON (Inr msg)) msgs @ ReadJSON (Inl err) # rest) st tr)))
         \<longleftrightarrow> IsUnexpectedCloseError err [CloseNormalClosure, CloseGoingAway, CloseNoStatusReceived]"
  using assms
proof (induction msgs arbitrary: st tr)
  case Nil
  then show ?case by auto
next
  case (Cons msg msgs)
  obtain st' logs where h: "handleMsg tls msg st = (st', logs)"
    by (cases "handleMsg tls msg st")
  have "\<forall>txt. Log ERROR txt \<notin> set logs"
    using handleMsg_logs [of _ tls msg st] by (auto simp: h)
  with Cons.prems
  have "\<forall>txt. Log ERROR txt \<notin> set (tr @ Log INFO ''received message from websocket: %v'' # logs)"
    by simp
  from Cons.IH [OF this] show ?case by (simp add: h)
qed

lemma IsUnexpectedCloseError_iff:
  "IsUnexpectedCloseError err [CloseNormalClosure, CloseGoingAway, CloseNoStatusReceived]
   \<longleftrightarrow> (\<exists>code text. err = CloseError code text \<and> code \<noteq> 1000 \<and> code \<noteq> 1001 \<and> code \<noteq> 1005)"
  by (cases err) (auto simp: CloseNormalClosure_def CloseGoingAway_def CloseNoStatusReceived_def)

text \<open>
  Claim C4, amended. After any number of frames read, a failed read ends the pump,
  whose last effect is the call of \<^verbatim>\<open>cancel\<close>; an entry at error level is logged
  exactly when the error is a close error whose code is none of 1000 (normal closure),
  1001 (going away) and 1005 (no status received). An error that is not a close error
  is logged no more than an expected close is.
\<close>

theorem read_failure_ends_pump:
  "returned (readGoroutine tls (map (\<lambda>msg. ReadJSON (Inr msg)) msgs @ ReadJSON (Inl err) # rest) st)
   \<and> last (effects (readGoroutine tls (map (\<lambda>msg. ReadJSON (Inr msg)) msgs @ ReadJSON (Inl err) # rest) st))
       = Cancel
   \<and> ((\<exists>txt. Log ERROR txt \<in> set (effects
          (readGoroutine tls (map (\<lambda>msg. ReadJSON (Inr msg)) msgs @ ReadJSON (Inl err) # rest) st)))
       \<longleftrightarrow> (\<exists>code text. err = CloseError code text \<and> code \<noteq> 1000 \<and> code \<noteq> 1001 \<and> code \<noteq> 1005))"
proof -
  let ?obs = "map (\<lambda>msg. ReadJSON (Inr msg)) msgs @ ReadJSON (Inl err) # rest"
  have r: "returned (readLoop tls ?obs st [])"
    unfolding readLoop_returned_iff by auto
  have e: "effects (readGoroutine tls ?obs st) =
           effects (readLoop tls ?obs st []) @ [Log DEBUG ''finished reading from websocket connection'', Cancel]"
    using r by (simp add: readGoroutine_def readFromWSConn_def Let_def)
  have "(\<exists>txt. Log ERROR txt \<in> set (effects (readGoroutine tls ?obs st)))
        \<longleftrightarrow> (\<exists>txt. Log ERROR txt \<in> set (effects (readLoop tls ?obs st [])))"
    unfolding e by auto
  also have "\<dots> \<longleftrightarrow> IsUnexpectedCloseError err [CloseNormalClosure, CloseGoingAway, CloseNoStatusReceived]"
    by (rule readLoop_ERROR) simp
  finally show ?thesis
    using r unfolding IsUnexpectedCloseError_iff readGoroutine_returned e by simp
qed

theorem read_failure_ends_pump_witness:
  "(\<exists>txt. Log ERROR txt \<in> set (effects (readGoroutine [''user'', ''list'']
        (map (\<lambda>msg. ReadJSON (Inr msg)) [[''type'' \<mapsto> ''subscribe'', ''stream'' \<mapsto> ''list'']]
         @ ReadJSON (Inl (CloseError 1006 ''unexpected EOF'')) # [])
        \<lparr>ID = ''01'', StreamTypes = Map.empty\<rparr>)))
   \<and> \<not> (\<exists>txt. Log ERROR txt \<in> set (effects (readGoroutine [''user'', ''list'']
        (map (\<lambda>msg. ReadJSON (Inr msg)) [] @ ReadJSON (Inl (CloseError 1001 ''going away'')) # [])
        \<lparr>ID = ''01'', StreamTypes = Map.empty\<rparr>)))
   \<and> returned (readGoroutine [''user'', ''list'']
        (map (\<lambda>msg. ReadJSON (Inr msg)) [] @ ReadJSON (Inl (CloseError 1001 ''going away'')) # [])
        \<lparr>ID = ''01'', StreamTypes = Map.empty\<rparr>)"
  using read_failure_ends_pump [of "[''user'', ''list'']" "[[''type'' \<mapsto> ''subscribe'', ''stream'' \<mapsto> ''list'']]"
          "CloseError 1006 ''unexpected EOF''" "[]" "\<lparr>ID = ''01'', StreamTypes = Map.empty\<rparr>"]
        read_failure_ends_pump [of "[''user'', ''list'']" "[]"
          "CloseError 1001 ''going away''" "[]" "\<lparr>ID = ''01'', StreamTypes = Map.empty\<rparr>"]
  by simp


section \<open>Closing the hangup channel\<close>

text \<open>
  Claim C1, as stated, fails in two places. The coordinator waits for the context to
  be cancelled, which the first pump to return does: in the schedule below the
  inbound pump returns and cancels, the coordinator closes the connection and the
  hangup channel, and the outbound pump is still running. And the coordinator is not
  the only one to close the channel: when the upgrade fails the handler closes it.
\<close>

theorem hangup_closed_while_pump_runs:
  "hangupCloses (handleWSConn
      [Coordinator, Coordinator, ReadPump, ReadPump, Coordinator, Coordinator, Coordinator]) = 1
   \<and> writer (handleWSConn
      [Coordinator, Coordinator, ReadPump, ReadPump, Coordinator, Coordinator, Coordinator]) = Running
   \<and> StreamGETHandler
       (answering (Inr \<lparr>Username = ''alice''\<rparr>) (Inl ''no session'')
          (Inr \<lparr>ID = ''01'', StreamTypes = [''user'' \<mapsto> True]\<rparr>) (Inl ''not a websocket handshake''))
       (request ''tok'' [] ''user'' [] [])
     = [CallAuthorize ''tok'', CallOpen \<lparr>Username = ''alice''\<rparr> ''user'', CallUpgrade,
        Log ERROR ''error upgrading websocket connection: %v'', CloseHangup ''01'']"
  by (simp add: handleWSConn_def handleWSConn_init_def StreamGETHandler_def authorize_def
        accessToken_def openAndUpgrade_def initialStreamType_def request_simps answering_simps)

lemma coherent_init: "coherent handleWSConn_init"
  by (simp add: coherent_def handleWSConn_init_def)

lemma coherent_step: "coherent s \<Longrightarrow> coherent (step a s)"
  by (cases a; cases "pc s"; cases "reader s"; cases "writer s") (auto simp: coherent_def)

lemma coherent_fold: "coherent s \<Longrightarrow> coherent (fold step schedule s)"
  by (induction schedule arbitrary: s) (auto simp: coherent_step)

lemma coherent_handleWSConn: "coherent (handleWSConn schedule)"
  by (simp add: handleWSConn_def coherent_fold coherent_init)

lemma step_hangupCloses:
  "a \<noteq> Coordinator \<Longrightarrow> hangupCloses (step a s) = hangupCloses s"
  by (cases a) simp_all

lemma handler_upgrade_failed:
  assumes "snd (authorize m c) = Some account" and "Open m account (initialStreamType c) = Inr st"
    and "Upgrade m c = Inl err"
  shows "count_list (StreamGETHandler m c) (CloseHangup (ID st)) = 1
       \<and> (\<forall>u w s. GoHandleWSConn u w s \<notin> set (StreamGETHandler m c))"
  using assms
  by (auto simp: StreamGETHandler_def authorize_def openAndUpgrade_def Let_def
           split: sum.splits if_splits prod.splits option.splits)

lemma handler_upgraded:
  assumes "snd (authorize m c) = Some account" and "Open m account (initialStreamType c) = Inr st"
    and "Upgrade m c = Inr wsConn"
  shows "(\<forall>i. CloseHangup i \<notin> set (StreamGETHandler m c))
       \<and> count_list (StreamGETHandler m c) (GoHandleWSConn (Username account) wsConn st) = 1"
  using assms
  by (auto simp: StreamGETHandler_def authorize_def openAndUpgrade_def Let_def
           split: sum.splits if_splits prod.splits option.splits)

text \<open>
  Claim C1, amended. Under every schedule the coordinator has closed the hangup
  channel at most once, and exactly once when it has returned; when it has closed it,
  the context is cancelled, the connection is closed and at least one of the two
  pumps has finished; no step of a pump closes it. In the handler, for a stream that
  was opened: if the upgrade fails the handler closes the hangup channel of that
  stream once and does not start the coordinator; if it succeeds the handler does not
  close it and starts the coordinator once.
\<close>

theorem hangup_closed_once:
  "hangupCloses (handleWSConn schedule) \<le> 1
   \<and> (pc (handleWSConn schedule) = Done \<longrightarrow> hangupCloses (handleWSConn schedule) = 1)
   \<and> (hangupCloses (handleWSConn schedule) = 1 \<longrightarrow>
        ctxDone (handleWSConn schedule) \<and> connClosed (handleWSConn schedule)
        \<and> (reader (handleWSConn schedule) = Finished \<or> writer (handleWSConn schedule) = Finished))
   \<and> (\<forall>a s. a \<noteq> Coordinator \<longrightarrow> hangupCloses (step a s) = hangupCloses s)
   \<and> (\<forall>account st. snd (authorize m c) = Some account \<and> Open m account (initialStreamType c) = Inr st \<longrightarrow>
        (case Upgrade m c of
           Inl err \<Rightarrow>
             count_list (StreamGETHandler m c) (CloseHangup (ID st)) = 1
             \<and> (\<forall>u w s. GoHandleWSConn u w s \<notin> set (StreamGETHandler m c))
         | Inr wsConn \<Rightarrow>
             (\<forall>i. CloseHangup i \<notin> set (StreamGETHandler m c))
             \<and> count_list (StreamGETHandler m c) (GoHandleWSConn (Username account) wsConn st) = 1))"
proof -
  have c: "coherent (handleWSConn schedule)" by (rule coherent_handleWSConn)
  have 1: "hangupCloses (handleWSConn schedule) \<le> 1"
    using c by (simp add: coherent_def)
  have 2: "pc (handleWSConn schedule) = Done \<longrightarrow> hangupCloses (handleWSConn schedule) = 1"
    using c by (simp add: coherent_def)
  have 3: "hangupCloses (handleWSConn schedule) = 1 \<longrightarrow>
        ctxDone (handleWSConn schedule) \<and> connClosed (handleWSConn schedule)
        \<and> (reader (handleWSConn schedule) = Finished \<or> writer (handleWSConn schedule) = Finished)"
    using c by (auto simp: coherent_def split: if_splits)
  have 4: "\<forall>a s. a \<noteq> Coordinator \<longrightarrow> hangupCloses (step a s) = hangupCloses s"
    by (simp add: step_hangupCloses)
  have 5: "\<forall>account st. snd (authorize m c) = Some account \<and> Open m account (initialStreamType c) = Inr st \<longrightarrow>
        (case Upgrade m c of
           Inl err \<Rightarrow>
             count_list (StreamGETHandler m c) (CloseHangup (ID st)) = 1
             \<and> (\<forall>u w s. GoHandleWSConn u w s \<notin> set (StreamGETHandler m c))
         | Inr wsConn \<Rightarrow>
             (\<forall>i. CloseHangup i \<notin> set (StreamGETHandler m c))
             \<and> count_list (StreamGETHandler m c) (GoHandleWSConn (Username account) wsConn st) = 1)"
    using handler_upgrade_failed [of m c] handler_upgraded [of m c]
    by (auto split: sum.splits)
  from 1 2 3 4 5 show ?thesis by blast
qed

theorem hangup_closed_once_witness:
  "pc (handleWSConn [Coordinator, Coordinator, WritePump, WritePump, Coordinator, ReadPump,
         Coordinator, Coordinator, ReadPump, Coordinator]) = Done
   \<and> hangupCloses (handleWSConn [Coordinator, Coordinator, WritePump, WritePump, Coordinator, ReadPump,
         Coordinator, Coordinator, ReadPump, Coordinator]) = 1
   \<and> ctxDone (handleWSConn [Coordinator, Coordinator, WritePump, WritePump, Coordinator, ReadPump,
         Coordinator, Coordinator, ReadPump, Coordinator])
   \<and> hangupCloses (step WritePump (handleWSConn [Coordinator, Coordinator, WritePump, WritePump,
         Coordinator, ReadPump, Coordinator, Coordinator, ReadPump, Coordinator])) = 1
   \<and> count_list (StreamGETHandler
         (answering (Inr \<lparr>Username = ''alice''\<rparr>) (Inl ''no session'')
            (Inr \<lparr>ID = ''01'', StreamTypes = [''user'' \<mapsto> True]\<rparr>) (Inl ''not a websocket handshake''))
         (request ''tok'' [] ''user'' [] [])) (CloseHangup ''01'') = 1"
proof -
  let ?sched = "[Coordinator, Coordinator, WritePump, WritePump, Coordinator, ReadPump,
         Coordinator, Coordinator, ReadPump, Coordinator]"
  let ?m = "answering (Inr \<lparr>Username = ''alice''\<rparr>) (Inl ''no session'')
            (Inr \<lparr>ID = ''01'', StreamTypes = [''user'' \<mapsto> True]\<rparr>) (Inl ''not a websocket handshake'')"
  let ?c = "request ''tok'' [] ''user'' [] []"
  have d: "pc (handleWSConn ?sched) = Done"
    by (simp add: handleWSConn_def handleWSConn_init_def)
  have a: "snd (authorize ?m ?c) = Some \<lparr>Username = ''alice''\<rparr>"
    by (simp add: authorize_def accessToken_def request_simps answering_simps)
  have w: "WritePump \<noteq> Coordinator" by simp
  from hangup_closed_once [of ?sched ?m ?c] d a w show ?thesis
    by (simp add: answering_simps)
qed

end
